theory Spec2Isabelle
  imports Main "HOL-Library.AList"
begin

section \<open>Multipart form parsing of \<open>bentoml/_internal/utils/formparser.py\<close>\<close>

text \<open>
  The module decodes a \<open>multipart/form-data\<close> request into one sub-request per part and
  concatenates responses into one streaming response. The byte-level state machine is the
  third-party \<open>python-multipart\<close> parser: the module only registers callbacks on it. The
  embedding therefore takes the library as a parameter (\<open>multipart_lib\<close>) and every theorem
  below holds for all libraries, unless it names a concrete one.
\<close>

subsection \<open>Bytes, exceptions and messages\<close>

text \<open>Python \<open>bytes\<close> and latin-1 decoded \<open>str\<close> are both lists of 8-bit characters.\<close>

type_synonym bytes = string

text \<open>
  The exceptions that can leave the module: the \<open>assert\<close> of
  \<open>populate_multipart_requests\<close>, a failed dictionary or header lookup, the library's
  \<open>MultipartParseError\<close>, the module's own \<open>BentoMLException\<close>, and any other exception a
  library call raises (\<open>PyException\<close> with the exception's class name).
\<close>

datatype error =
    AssertionError
  | KeyError string
  | MultipartParseError
  | BentoMLException string
  | PyException string

text \<open>The enumeration \<open>starlette.formparsers.MultiPartMessage\<close>.\<close>

datatype MultiPartMessage =
    PART_BEGIN
  | PART_DATA
  | PART_END
  | HEADER_FIELD
  | HEADER_VALUE
  | HEADER_END
  | HEADERS_FINISHED
  | END

type_synonym message = "MultiPartMessage \<times> bytes"

text \<open>
  A call the library makes into the \<open>callbacks\<close> dictionary: the callback's name and its
  arguments (\<open>data\<close>, \<open>start\<close>, \<open>end\<close> for the three callbacks that carry bytes).
\<close>

datatype callback =
    On_part_begin
  | On_part_data bytes int int
  | On_part_end
  | On_header_field bytes int int
  | On_header_value bytes int int
  | On_header_end
  | On_headers_finished
  | On_end

text \<open>Python's \<open>data[start:end]\<close>: negative indices count from the end, all are clipped.\<close>

definition slice_index :: "nat \<Rightarrow> int \<Rightarrow> nat" where
  "slice_index n i = (if i < 0 then nat (max 0 (int n + i)) else min n (nat i))"

definition py_slice :: "'a list \<Rightarrow> int \<Rightarrow> int \<Rightarrow> 'a list" where
  "py_slice xs start end =
     (let a = slice_index (length xs) start; b = slice_index (length xs) end
      in take (b - a) (drop a xs))"

text \<open>Python's \<open>bytes.lower()\<close>: the ASCII letters \<open>A\<close>..\<open>Z\<close> are mapped, nothing else.\<close>

definition lower_byte :: "char \<Rightarrow> char" where
  "lower_byte c =
     (let n = (of_char c :: nat) in if 65 \<le> n \<and> n \<le> 90 then char_of (n + 32) else c)"

definition bytes_lower :: "bytes \<Rightarrow> bytes" where
  "bytes_lower = map lower_byte"

subsection \<open>The callbacks of \<open>MultiPartParser\<close>\<close>

text \<open>Each method appends one message to \<open>self.messages\<close>, passed and returned here.\<close>

definition on_part_begin :: "message list \<Rightarrow> message list" where
  "on_part_begin messages = messages @ [(PART_BEGIN, [])]"

definition on_part_data :: "bytes \<Rightarrow> int \<Rightarrow> int \<Rightarrow> message list \<Rightarrow> message list" where
  "on_part_data dat start end messages = messages @ [(PART_DATA, py_slice dat start end)]"

definition on_part_end :: "message list \<Rightarrow> message list" where
  "on_part_end messages = messages @ [(PART_END, [])]"

definition on_header_field :: "bytes \<Rightarrow> int \<Rightarrow> int \<Rightarrow> message list \<Rightarrow> message list" where
  "on_header_field dat start end messages =
     messages @ [(HEADER_FIELD, py_slice dat start end)]"

definition on_header_value :: "bytes \<Rightarrow> int \<Rightarrow> int \<Rightarrow> message list \<Rightarrow> message list" where
  "on_header_value dat start end messages =
     messages @ [(HEADER_VALUE, py_slice dat start end)]"

definition on_header_end :: "message list \<Rightarrow> message list" where
  "on_header_end messages = messages @ [(HEADER_END, [])]"

definition on_headers_finished :: "message list \<Rightarrow> message list" where
  "on_headers_finished messages = messages @ [(HEADERS_FINISHED, [])]"

definition on_end :: "message list \<Rightarrow> message list" where
  "on_end messages = messages @ [(END, [])]"

text \<open>The \<open>callbacks\<close> dictionary of \<open>parse\<close>: the library's call reaches the method.\<close>

fun callbacks :: "callback \<Rightarrow> message list \<Rightarrow> message list" where
  "callbacks On_part_begin = on_part_begin"
| "callbacks (On_part_data dat s e) = on_part_data dat s e"
| "callbacks On_part_end = on_part_end"
| "callbacks (On_header_field dat s e) = on_header_field dat s e"
| "callbacks (On_header_value dat s e) = on_header_value dat s e"
| "callbacks On_header_end = on_header_end"
| "callbacks On_headers_finished = on_headers_finished"
| "callbacks On_end = on_end"

subsection \<open>The library the module calls\<close>

text \<open>
  \<open>python-multipart\<close> and \<open>starlette\<close> are not part of the repository. What the module
  uses of them is a record of functions over a parser state \<open>'p\<close>:
  \<^item> \<open>parse_options_header\<close> takes a header value (\<open>None\<close> when the header is absent) and
    returns the lower-cased media type and the dictionary of its parameters;
  \<^item> \<open>MultipartParser\<close> is the constructor, called with \<open>params.get(b"boundary")\<close>;
  \<^item> \<open>parser_write\<close> consumes one chunk and returns the new parser state with the
    callbacks it invoked, in order, or raises;
  \<^item> \<open>parser_finalize\<close> closes the parser and returns the callbacks it invoked, or raises;
  \<^item> \<open>user_safe_decode\<close> is starlette's \<open>_user_safe_decode(src, codec)\<close>.
\<close>

record 'p multipart_lib =
  parse_options_header :: "bytes option \<Rightarrow> bytes \<times> (bytes \<rightharpoonup> bytes)"
  MultipartParser :: "bytes option \<Rightarrow> error + 'p"
  parser_write :: "'p \<Rightarrow> bytes \<Rightarrow> error + ('p \<times> callback list)"
  parser_finalize :: "'p \<Rightarrow> error + callback list"
  user_safe_decode :: "bytes \<Rightarrow> string \<Rightarrow> string"

subsection \<open>The part assembler: the loop body of \<open>MultiPartParser.parse\<close>\<close>

text \<open>
  The local variables of \<open>parse\<close>. \<open>headers\<close> is a reference to a list object that
  \<open>items.append((field_name, headers, data))\<close> stores without copying it and that
  \<open>headers.append\<close> mutates afterwards, so the list objects live in a store (\<open>heap\<close>) and
  \<open>headers\<close> and the items hold addresses. \<open>data\<close> is immutable bytes, rebound by \<open>+=\<close>.
\<close>

record locals =
  header_field :: bytes
  header_value :: bytes
  content_disposition :: "bytes option"
  field_name :: string
  data :: bytes
  items :: "(string \<times> nat \<times> bytes) list"
  headers :: nat
  heap :: "(bytes \<times> bytes) list list"

text \<open>Lines 91-99: the state before the first chunk; \<open>headers = list()\<close> allocates.\<close>

definition initial_locals :: locals where
  "initial_locals =
     \<lparr>header_field = [], header_value = [], content_disposition = None, field_name = [],
      data = [], items = [], headers = 0, heap = [[]]\<rparr>"

text \<open>Lines 107-130: one iteration of \<open>for message_type, message_bytes in messages\<close>.\<close>

fun process_message ::
  "('p, 'z) multipart_lib_scheme \<Rightarrow> string \<Rightarrow> locals \<Rightarrow> message \<Rightarrow> error + locals" where
  "process_message L charset s (PART_BEGIN, message_bytes) =
     Inr (s\<lparr>content_disposition := None, data := [],
            headers := length (heap s), heap := heap s @ [[]]\<rparr>)"
| "process_message L charset s (HEADER_FIELD, message_bytes) =
     Inr (s\<lparr>header_field := header_field s @ message_bytes\<rparr>)"
| "process_message L charset s (HEADER_VALUE, message_bytes) =
     Inr (s\<lparr>header_value := header_value s @ message_bytes\<rparr>)"
| "process_message L charset s (HEADER_END, message_bytes) =
     (let field = bytes_lower (header_field s) in
      if field = ''content-disposition''
      then Inr (s\<lparr>content_disposition := Some (header_value s),
                  header_field := [], header_value := []\<rparr>)
      else Inr (s\<lparr>heap := (heap s)[headers s := heap s ! headers s @ [(field, header_value s)]],
                  header_field := [], header_value := []\<rparr>))"
| "process_message L charset s (HEADERS_FINISHED, message_bytes) =
     (let options = snd (parse_options_header L (content_disposition s)) in
      case options ''name'' of
        None \<Rightarrow> Inl (KeyError ''name'')
      | Some name \<Rightarrow> Inr (s\<lparr>field_name := user_safe_decode L name charset\<rparr>))"
| "process_message L charset s (PART_DATA, message_bytes) =
     Inr (s\<lparr>data := data s @ message_bytes\<rparr>)"
| "process_message L charset s (PART_END, message_bytes) =
     Inr (s\<lparr>items := items s @ [(field_name s, headers s, data s)]\<rparr>)"
| "process_message L charset s (END, message_bytes) = Inr s"

text \<open>The inner \<open>for\<close> loop over the drained messages; an exception ends it.\<close>

fun process_messages ::
  "('p, 'z) multipart_lib_scheme \<Rightarrow> string \<Rightarrow> locals \<Rightarrow> message list \<Rightarrow> error + locals" where
  "process_messages L charset s [] = Inr s"
| "process_messages L charset s (m # ms) =
     (case process_message L charset s m of
        Inl e \<Rightarrow> Inl e
      | Inr s' \<Rightarrow> process_messages L charset s' ms)"

text \<open>
  Lines 102-130: \<open>async for chunk in self.stream\<close>. The chunk is written to the parser,
  whose callbacks extend \<open>self.messages\<close>; the list is then copied, cleared and processed.
  The result is the parser, \<open>self.messages\<close> and the locals after the last chunk.
\<close>

fun feed ::
  "('p, 'z) multipart_lib_scheme \<Rightarrow> string \<Rightarrow> 'p \<Rightarrow> message list \<Rightarrow> locals \<Rightarrow> bytes list \<Rightarrow>
     error + ('p \<times> message list \<times> locals)" where
  "feed L charset parser self_messages s [] = Inr (parser, self_messages, s)"
| "feed L charset parser self_messages s (chunk # stream) =
     (case parser_write L parser chunk of
        Inl e \<Rightarrow> Inl e
      | Inr (parser', invoked) \<Rightarrow>
          (let messages = fold callbacks invoked self_messages in
           case process_messages L charset s messages of
             Inl e \<Rightarrow> Inl e
           | Inr s' \<Rightarrow> feed L charset parser' [] s' stream))"

text \<open>An item as returned: the address of its header list is read in the final store.\<close>

type_synonym form_item = "string \<times> (bytes \<times> bytes) list \<times> bytes"

definition deref_item :: "(bytes \<times> bytes) list list \<Rightarrow> string \<times> nat \<times> bytes \<Rightarrow> form_item" where
  "deref_item h it = (case it of (name, a, dat) \<Rightarrow> (name, h ! a, dat))"

subsection \<open>\<open>MultiPartParser\<close>\<close>

text \<open>
  The object: \<open>self.headers\<close> (starlette \<open>Headers\<close>, a list of raw pairs whose names are
  lower case), \<open>self.stream\<close> (the chunks the generator yields) and \<open>self.messages\<close>.
\<close>

record MultiPartParser_obj =
  self_headers :: "(bytes \<times> bytes) list"
  self_stream :: "bytes list"
  self_messages :: "message list"

definition MultiPartParser_init :: "(bytes \<times> bytes) list \<Rightarrow> bytes list \<Rightarrow> MultiPartParser_obj" where
  "MultiPartParser_init hdrs stream =
     \<lparr>self_headers = hdrs, self_stream = stream, self_messages = []\<rparr>"

text \<open>
  Starlette's \<open>Headers\<close> lookup: the key is lower-cased and the first raw pair with that
  name is returned; \<open>headers[key]\<close> raises \<open>KeyError\<close> and \<open>headers.get(key)\<close> gives
  \<open>None\<close> when there is none.
\<close>

definition headers_get :: "(bytes \<times> bytes) list \<Rightarrow> string \<Rightarrow> bytes option" where
  "headers_get raw key = map_of raw (bytes_lower key)"

text \<open>
  Lines 69-75 of \<open>parse\<close>: the boundary and the charset read off the parameters of the
  \<open>Content-Type\<close> header. \<open>params.get(b"boundary")\<close> is \<open>None\<close> when there is none;
  \<open>charset.decode("latin-1")\<close> changes no byte.
\<close>

definition content_type_options ::
  "('p, 'z) multipart_lib_scheme \<Rightarrow> bytes \<Rightarrow> bytes option \<times> string" where
  "content_type_options L header =
     (let params = snd (parse_options_header L (Some header));
          charset = (case params ''charset'' of None \<Rightarrow> ''utf-8'' | Some c \<Rightarrow> c);
          boundary = params ''boundary''
      in (boundary, charset))"

text \<open>
  \<open>MultiPartParser.parse\<close>. It returns the items; the second component is what is left
  in \<open>self.messages\<close> when it returns, which nothing reads any more.
\<close>

definition parse ::
  "('p, 'z) multipart_lib_scheme \<Rightarrow> MultiPartParser_obj \<Rightarrow> error + (form_item list \<times> message list)"
  where
  "parse L self =
     (case headers_get (self_headers self) ''Content-Type'' of
        None \<Rightarrow> Inl (KeyError ''Content-Type'')
      | Some header \<Rightarrow>
          (case content_type_options L header of (boundary, charset) \<Rightarrow>
             (case MultipartParser L boundary of
                Inl e \<Rightarrow> Inl e
              | Inr parser \<Rightarrow>
                  (case feed L charset parser (self_messages self) initial_locals
                          (self_stream self) of
                     Inl e \<Rightarrow> Inl e
                   | Inr (parser', messages, s) \<Rightarrow>
                       (case parser_finalize L parser' of
                          Inl e \<Rightarrow> Inl e
                        | Inr invoked \<Rightarrow>
                            Inr (map (deref_item (heap s)) (items s),
                                 fold callbacks invoked messages))))))"

subsection \<open>\<open>populate_multipart_requests\<close>\<close>

text \<open>
  A starlette \<open>Request\<close>: its \<open>scope\<close> (the raw header list under \<open>"headers"\<close> and
  the other entries, left abstract), \<open>_body\<close> and \<open>_form\<close> when they are set, and the
  chunks its receive channel delivers.
\<close>

record 'a scope =
  scope_headers :: "(bytes \<times> bytes) list"
  scope_entries :: 'a

record 'a Request =
  req_scope :: "'a scope"
  req_body :: "bytes option"
  req_form :: "form_item list option"
  req_receive :: "bytes list"

text \<open>\<open>Request(scope)\<close>: a request without a receive channel.\<close>

definition Request_init :: "'a scope \<Rightarrow> 'a Request" where
  "Request_init sc = \<lparr>req_scope = sc, req_body = None, req_form = None, req_receive = []\<rparr>"

text \<open>\<open>request.stream()\<close>: a cached body is yielded, followed by an empty chunk.\<close>

definition request_stream :: "'a Request \<Rightarrow> bytes list" where
  "request_stream request =
     (case req_body request of Some b \<Rightarrow> [b, []] | None \<Rightarrow> req_receive request)"

text \<open>
  Python dictionaries keep insertion order, and storing under an existing key replaces
  the value in place: \<open>AList.update\<close>. \<open>dict(pairs)\<close> stores the pairs in order,
  \<open>d.update(d')\<close> stores the items of \<open>d'\<close> in order, \<open>list(d.items())\<close> is the list.
\<close>

definition dict_update :: "('k \<times> 'v) list \<Rightarrow> ('k \<times> 'v) list \<Rightarrow> ('k \<times> 'v) list" where
  "dict_update d d' = fold (\<lambda>(k, v). AList.update k v) d' d"

definition dict :: "('k \<times> 'v) list \<Rightarrow> ('k \<times> 'v) list" where
  "dict pairs = dict_update [] pairs"

text \<open>Lines 151-157: the sub-request of one item.\<close>

definition sub_request :: "'a Request \<Rightarrow> form_item \<Rightarrow> 'a Request" where
  "sub_request request item =
     (case item of (name, hdrs, dat) \<Rightarrow>
        (let sc = req_scope request;
             ori_headers = dict (scope_headers sc);
             ori_headers = dict_update ori_headers (dict hdrs);
             sc = sc\<lparr>scope_headers := ori_headers\<rparr>;
             req = Request_init sc
         in req\<lparr>req_body := Some dat\<rparr>))"

text \<open>Lines 149-159: the loop that fills \<open>reqs\<close>.\<close>

fun fill_reqs ::
  "'a Request \<Rightarrow> (string \<rightharpoonup> 'a Request) \<Rightarrow> form_item list \<Rightarrow> (string \<rightharpoonup> 'a Request)" where
  "fill_reqs request reqs [] = reqs"
| "fill_reqs request reqs (item # form) =
     fill_reqs request (reqs(fst item \<mapsto> sub_request request item)) form"

text \<open>
  The function returns \<open>reqs\<close>; the second component is the parent request after
  \<open>request._form = form\<close>.
\<close>

definition populate_multipart_requests ::
  "('p, 'z) multipart_lib_scheme \<Rightarrow> 'a Request \<Rightarrow>
     error + ((string \<rightharpoonup> 'a Request) \<times> 'a Request)" where
  "populate_multipart_requests L request =
     (let content_type_header = headers_get (scope_headers (req_scope request)) ''Content-Type'';
          content_type = fst (parse_options_header L content_type_header)
      in if content_type \<noteq> ''multipart/form-data'' then Inl AssertionError
         else
           (let multipart_parser =
                  MultiPartParser_init (scope_headers (req_scope request)) (request_stream request)
            in case parse L multipart_parser of
                 Inl MultipartParseError \<Rightarrow> Inl (BentoMLException ''Invalid multipart requests'')
               | Inl e \<Rightarrow> Inl e
               | Inr (form, left) \<Rightarrow>
                   (let request = request\<lparr>req_form := Some form\<rparr>
                    in Inr (fill_reqs request Map.empty form, request))))"

subsection \<open>\<open>concat_to_multipart_responses\<close>\<close>

text \<open>
  \<open>io.BytesIO\<close>: the buffer and the stream position. \<open>write\<close> stores at the position
  (padding with zero bytes when the position is past the end) and advances it;
  iterating the object reads lines from the position to the end of the buffer.
\<close>

record BytesIO =
  buffer :: bytes
  position :: nat

definition BytesIO_init :: BytesIO where
  "BytesIO_init = \<lparr>buffer = [], position = 0\<rparr>"

definition BytesIO_write :: "bytes \<Rightarrow> BytesIO \<Rightarrow> BytesIO" where
  "BytesIO_write b io =
     \<lparr>buffer = take (position io) (buffer io)
                @ replicate (position io - length (buffer io)) (CHR 0x00)
                @ b @ drop (position io + length b) (buffer io),
      position = position io + length b\<rparr>"

fun split_lines :: "bytes \<Rightarrow> bytes list" where
  "split_lines [] = []"
| "split_lines (c # cs) =
     (if c = CHR 0x0A then [c] # split_lines cs
      else (case split_lines cs of [] \<Rightarrow> [[c]] | l # ls \<Rightarrow> (c # l) # ls))"

definition BytesIO_iter :: "BytesIO \<Rightarrow> bytes list" where
  "BytesIO_iter io = split_lines (drop (position io) (buffer io))"

text \<open>\<open>binascii.hexlify\<close>: two lower-case hexadecimal digits for each byte.\<close>

definition hex_digit :: "nat \<Rightarrow> char" where
  "hex_digit n = ''0123456789abcdef'' ! n"

definition hexlify :: "bytes \<Rightarrow> string" where
  "hexlify bs = concat (map (\<lambda>c. [hex_digit (of_char c div 16), hex_digit (of_char c mod 16)]) bs)"

text \<open>A starlette \<open>Response\<close> (its \<open>body\<close>) and \<open>StreamingResponse\<close>.\<close>

record 'a Response =
  body :: bytes
  response_entries :: 'a

record StreamingResponse =
  body_iterator :: BytesIO
  raw_headers :: "(string \<times> string) list"

text \<open>
  \<open>StreamingResponse.stream_response\<close> sends the chunks obtained by iterating the content
  object; the body a client receives is their concatenation.
\<close>

definition streamed_body :: "StreamingResponse \<Rightarrow> bytes" where
  "streamed_body r = concat (BytesIO_iter (body_iterator r))"

text \<open>\<open>urandom\<close> stands for \<open>os.urandom\<close>: the bytes the system returns for a length.\<close>

definition concat_to_multipart_responses ::
  "(nat \<Rightarrow> bytes) \<Rightarrow> (string \<times> 'a Response) list \<Rightarrow> StreamingResponse" where
  "concat_to_multipart_responses urandom responses =
     (let resp = fold (\<lambda>r io. BytesIO_write (body r) io) (map snd responses) BytesIO_init;
          boundary = hexlify (urandom 16);
          hdrs = [(''content-type'', ''multipart/form-data; boundary='' @ boundary)]
      in \<lparr>body_iterator = resp, raw_headers = hdrs\<rparr>)"

subsection \<open>Auxiliary notions for the statements\<close>

text \<open>
  What the decoder alone does with a whole stream: the chunks are written in order and
  the invoked callbacks are collected; the first exception ends it.
\<close>

fun write_all ::
  "('p, 'z) multipart_lib_scheme \<Rightarrow> 'p \<Rightarrow> bytes list \<Rightarrow> error + ('p \<times> callback list)" where
  "write_all L parser [] = Inr (parser, [])"
| "write_all L parser (chunk # stream) =
     (case parser_write L parser chunk of
        Inl e \<Rightarrow> Inl e
      | Inr (parser', invoked) \<Rightarrow>
          (case write_all L parser' stream of
             Inl e \<Rightarrow> Inl e
           | Inr (parser'', invoked') \<Rightarrow> Inr (parser'', invoked @ invoked')))"

text \<open>
  Two chunkings of one body make the decoder cut header names, header values and part
  data at different places. \<open>coalesce\<close> is the normal form of a message list under such
  cuts: empty fragments are dropped and adjacent fragments of one kind are joined.
\<close>

fun fragment :: "MultiPartMessage \<Rightarrow> bool" where
  "fragment HEADER_FIELD = True"
| "fragment HEADER_VALUE = True"
| "fragment PART_DATA = True"
| "fragment _ = False"

fun coalesce :: "message list \<Rightarrow> message list" where
  "coalesce [] = []"
| "coalesce ((t, b) # ms) =
     (if \<not> fragment t then (t, b) # coalesce ms
      else if b = [] then coalesce ms
      else (case coalesce ms of
              [] \<Rightarrow> [(t, b)]
            | (t', b') # r \<Rightarrow> if t' = t then (t, b @ b') # r else (t, b) # (t', b') # r))"

text \<open>
  The header names as the stream delivered them: the bytes of the \<open>HEADER_FIELD\<close>
  messages since the previous \<open>HEADER_END\<close>, joined, one entry per \<open>HEADER_END\<close>.
\<close>

fun received_header_fields :: "bytes \<Rightarrow> message list \<Rightarrow> bytes list" where
  "received_header_fields acc [] = []"
| "received_header_fields acc ((t, b) # ms) =
     (if t = HEADER_FIELD then received_header_fields (acc @ b) ms
      else if t = HEADER_END then acc # received_header_fields [] ms
      else received_header_fields acc ms)"

text \<open>
  The invariant behind the statements on header names: the addresses held by \<open>headers\<close>
  and by the items are allocated, and every name stored in a header list satisfies \<open>P\<close>.
\<close>

definition names_ok :: "(bytes \<Rightarrow> bool) \<Rightarrow> locals \<Rightarrow> bool" where
  "names_ok P s \<longleftrightarrow>
     headers s < length (heap s) \<and>
     (\<forall>it \<in> set (items s). fst (snd it) < length (heap s)) \<and>
     (\<forall>hl \<in> set (heap s). \<forall>kv \<in> set hl. P (fst kv))"

text \<open>The value a Python dictionary built from a list of pairs holds for a key: the last.\<close>

definition last_value :: "('k \<times> 'v) list \<Rightarrow> 'k \<Rightarrow> 'v option" where
  "last_value pairs k = map_of (rev pairs) k"

subsection \<open>A recorded decoder for concrete runs\<close>

text \<open>
  A stand-in for the library that replays recorded runs: \<open>parse_options_header\<close> is a
  table from header values to results (a value outside the table is a bare media type
  without parameters), the constructor rejects a missing boundary as \<open>b'\r\n--' + None\<close>
  does, \<open>write\<close> looks the chunk up in a table of recorded outcomes (a chunk outside the
  table invokes nothing) and counts the chunks, and \<open>finalize\<close> returns \<open>fin\<close>.
\<close>

definition replay_lib ::
  "(bytes \<times> bytes \<times> (bytes \<times> bytes) list) list \<Rightarrow> (bytes \<times> (error + callback list)) list \<Rightarrow>
     error + callback list \<Rightarrow> nat multipart_lib" where
  "replay_lib table script fin =
     \<lparr>parse_options_header =
        (\<lambda>v. case v of
               None \<Rightarrow> ([], Map.empty)
             | Some h \<Rightarrow> (case map_of table h of
                            None \<Rightarrow> (bytes_lower h, Map.empty)
                          | Some (ct, ps) \<Rightarrow> (ct, map_of ps))),
      MultipartParser =
        (\<lambda>boundary. case boundary of
                      None \<Rightarrow> Inl (PyException ''TypeError'')
                    | Some b \<Rightarrow> Inr 0),
      parser_write =
        (\<lambda>p chunk. case map_of script chunk of
                     None \<Rightarrow> Inr (Suc p, [])
                   | Some (Inl e) \<Rightarrow> Inl e
                   | Some (Inr invoked) \<Rightarrow> Inr (Suc p, invoked)),
      parser_finalize = (\<lambda>p. fin),
      user_safe_decode = (\<lambda>src codec. src)\<rparr>"

definition CRLF :: bytes where
  "CRLF = [CHR 0x0D, CHR 0x0A]"

text \<open>
  The body of the specification's example, boundary \<open>XYZ\<close>: one part named \<open>file\<close> with
  data \<open>hello\<close> (70 bytes), and the callbacks of the decoder on it, with offsets into the
  chunk: as one chunk, cut after 15 bytes (inside the header name), and truncated after
  59 bytes (before the closing boundary). The last entry of \<open>recorded_writes\<close> is a body
  that does not start with the boundary, which the decoder rejects at once.
\<close>

definition file_body :: bytes where
  "file_body = ''--XYZ'' @ CRLF @ ''Content-Disposition: form-data; name=\"file\"'' @ CRLF @ CRLF
                @ ''hello'' @ CRLF @ ''--XYZ--'' @ CRLF"

text \<open>The same part without the \<open>name\<close> parameter (57 bytes).\<close>

definition nameless_body :: bytes where
  "nameless_body = ''--XYZ'' @ CRLF @ ''Content-Disposition: form-data'' @ CRLF @ CRLF
                @ ''hello'' @ CRLF @ ''--XYZ--'' @ CRLF"

text \<open>Two parts named \<open>f\<close> with data \<open>A\<close> and \<open>B\<close>, and \<open>X-Tag\<close> headers (141 bytes).\<close>

definition twice_body :: bytes where
  "twice_body = ''--XYZ'' @ CRLF @ ''Content-Disposition: form-data; name=\"f\"'' @ CRLF
                @ ''X-Tag: one'' @ CRLF @ CRLF @ ''A'' @ CRLF
                @ ''--XYZ'' @ CRLF @ ''Content-Disposition: form-data; name=\"f\"'' @ CRLF
                @ ''X-Tag: two'' @ CRLF @ CRLF @ ''B'' @ CRLF @ ''--XYZ--'' @ CRLF"

definition recorded_options :: "(bytes \<times> bytes \<times> (bytes \<times> bytes) list) list" where
  "recorded_options =
     [(''multipart/form-data; boundary=XYZ'', ''multipart/form-data'', [(''boundary'', ''XYZ'')]),
      (''form-data; name=\"file\"'', ''form-data'', [(''name'', ''file'')]),
      (''form-data; name=\"f\"'', ''form-data'', [(''name'', ''f'')])]"

definition recorded_writes :: "(bytes \<times> (error + callback list)) list" where
  "recorded_writes =
     [(file_body,
         Inr [On_part_begin, On_header_field file_body 7 26, On_header_value file_body 28 50,
              On_header_end, On_headers_finished, On_part_data file_body 54 59,
              On_part_end, On_end]),
      (take 15 file_body,
         Inr [On_part_begin, On_header_field (take 15 file_body) 7 15]),
      (drop 15 file_body,
         Inr [On_header_field (drop 15 file_body) 0 11, On_header_value (drop 15 file_body) 13 35,
              On_header_end, On_headers_finished, On_part_data (drop 15 file_body) 39 44,
              On_part_end, On_end]),
      (take 59 file_body,
         Inr [On_part_begin, On_header_field (take 59 file_body) 7 26,
              On_header_value (take 59 file_body) 28 50, On_header_end, On_headers_finished,
              On_part_data (take 59 file_body) 54 59]),
      (nameless_body,
         Inr [On_part_begin, On_header_field nameless_body 7 26,
              On_header_value nameless_body 28 37, On_header_end, On_headers_finished,
              On_part_data nameless_body 41 46, On_part_end, On_end]),
      (twice_body,
         Inr [On_part_begin, On_header_field twice_body 7 26, On_header_value twice_body 28 47,
              On_header_end, On_header_field twice_body 49 54, On_header_value twice_body 56 59,
              On_header_end, On_headers_finished, On_part_data twice_body 63 64, On_part_end,
              On_part_begin, On_header_field twice_body 73 92, On_header_value twice_body 94 113,
              On_header_end, On_header_field twice_body 115 120,
              On_header_value twice_body 122 125, On_header_end, On_headers_finished,
              On_part_data twice_body 129 130, On_part_end, On_end]),
      (''hello'', Inl MultipartParseError)]"

text \<open>The recorded library whose \<open>finalize\<close> checks nothing and invokes nothing.\<close>

definition recorded_lib :: "nat multipart_lib" where
  "recorded_lib = replay_lib recorded_options recorded_writes (Inr [])"

definition form_request :: "bytes \<Rightarrow> bytes list \<Rightarrow> unit Request" where
  "form_request content_type chunks =
     \<lparr>req_scope = \<lparr>scope_headers = [(''host'', ''localhost''), (''content-type'', content_type)],
                   scope_entries = ()\<rparr>,
      req_body = None, req_form = None, req_receive = chunks\<rparr>"

section \<open>Properties\<close>

subsection \<open>The chunk loop as one pass over the decoder's callbacks\<close>

text \<open>
  The locals of \<open>parse\<close> live across chunks, so as long as no \<open>write\<close> raises, feeding
  the chunks one by one processes the messages of all invoked callbacks in one sequence.
\<close>

lemma fold_callbacks_append:
  "fold callbacks invoked msgs = msgs @ fold callbacks invoked []"
proof (induction invoked arbitrary: msgs rule: rev_induct)
  case Nil
  show ?case by simp
next
  case (snoc c invoked)
  show ?case
    by (cases c)
       (simp_all add: snoc [of msgs] on_part_begin_def on_part_data_def on_part_end_def
          on_header_field_def on_header_value_def on_header_end_def on_headers_finished_def
          on_end_def)
qed

lemma fold_callbacks_app2:
  "fold callbacks (xs @ ys) [] = fold callbacks xs [] @ fold callbacks ys []"
  using fold_callbacks_append [of ys "fold callbacks xs []"] by simp

lemma process_messages_append:
  "process_messages L cs s (xs @ ys) =
     (case process_messages L cs s xs of
        Inl e \<Rightarrow> Inl e
      | Inr s' \<Rightarrow> process_messages L cs s' ys)"
  by (induction xs arbitrary: s) (simp_all split: sum.splits)

lemma feed_write_all:
  "write_all L p stream = Inr (p', invoked) \<Longrightarrow>
   feed L cs p msgs s stream =
     (if stream = [] then Inr (p, msgs, s)
      else case process_messages L cs s (msgs @ fold callbacks invoked []) of
             Inl e \<Rightarrow> Inl e
           | Inr s' \<Rightarrow> Inr (p', [], s'))"
proof (induction stream arbitrary: p msgs s invoked)
  case Nil
  then show ?case by simp
next
  case (Cons chunk stream)
  from Cons.prems obtain p1 i1 i2 where
    w: "parser_write L p chunk = Inr (p1, i1)" and
    r: "write_all L p1 stream = Inr (p', i2)" and
    i: "invoked = i1 @ i2"
    by (auto split: sum.splits prod.splits)
  have m: "fold callbacks i1 msgs = msgs @ fold callbacks i1 []"
    by (rule fold_callbacks_append)
  show ?case
  proof (cases "stream = []")
    case True
    with r have "i2 = []" "p' = p1" by simp_all
    with True w i m show ?thesis by (simp split: sum.splits)
  next
    case False
    let ?F1 = "fold callbacks i1 []" and ?F2 = "fold callbacks i2 []"
    have e: "msgs @ fold callbacks invoked [] = (msgs @ ?F1) @ ?F2"
      unfolding i fold_callbacks_app2 by simp
    have "feed L cs p msgs s (chunk # stream) =
            (case process_messages L cs s (msgs @ ?F1) of
               Inl e \<Rightarrow> Inl e
             | Inr s1 \<Rightarrow> feed L cs p1 [] s1 stream)"
      using w m by simp
    also have "\<dots> =
            (case process_messages L cs s (msgs @ ?F1) of
               Inl e \<Rightarrow> Inl e
             | Inr s1 \<Rightarrow>
                 (case process_messages L cs s1 ?F2 of
                    Inl e \<Rightarrow> Inl e
                  | Inr s' \<Rightarrow> Inr (p', [], s')))"
      using False Cons.IH [OF r, of "[]"] by (simp split: sum.splits)
    also have "\<dots> =
            (case process_messages L cs s ((msgs @ ?F1) @ ?F2) of
               Inl e \<Rightarrow> Inl e
             | Inr s' \<Rightarrow> Inr (p', [], s'))"
      by (cases "process_messages L cs s (msgs @ ?F1)")
         (simp_all del: append_assoc add: process_messages_append [of L cs s "msgs @ ?F1" ?F2])
    finally show ?thesis
      unfolding e by simp
  qed
qed

text \<open>
  For a fresh \<open>MultiPartParser\<close> whose decoder accepts every chunk, \<open>parse\<close> is the
  assembler run once over the messages of all callbacks invoked by the writes, followed
  by \<open>finalize\<close>.
\<close>

lemma parse_fresh:
  assumes h: "headers_get hdrs ''Content-Type'' = Some header"
    and o: "content_type_options L header = (boundary, charset)"
    and c: "MultipartParser L boundary = Inr parser"
    and w: "write_all L parser stream = Inr (parser', invoked)"
  shows "parse L (MultiPartParser_init hdrs stream) =
     (case process_messages L charset initial_locals (fold callbacks invoked []) of
        Inl e \<Rightarrow> Inl e
      | Inr s \<Rightarrow>
          (case parser_finalize L parser' of
             Inl e \<Rightarrow> Inl e
           | Inr late \<Rightarrow> Inr (map (deref_item (heap s)) (items s), fold callbacks late [])))"
proof (cases "stream = []")
  case True
  with w have "invoked = []" "parser' = parser" by simp_all
  with True h o c show ?thesis
    by (simp add: parse_def MultiPartParser_init_def)
next
  case False
  have f: "feed L charset parser [] initial_locals stream =
      (case process_messages L charset initial_locals (fold callbacks invoked []) of
         Inl e \<Rightarrow> Inl e
       | Inr s' \<Rightarrow> Inr (parser', [], s'))"
    using feed_write_all [OF w, of charset "[]" initial_locals] False by simp
  show ?thesis
    using h o c
    by (simp add: parse_def MultiPartParser_init_def f split: sum.splits)
qed

subsection \<open>Fragmentation does not change what the assembler builds\<close>

text \<open>
  An empty fragment changes no local, and two adjacent fragments of one kind have the
  effect of the joined fragment; so a message list and its normal form are processed alike.
\<close>

lemma fragment_empty:
  "fragment t \<Longrightarrow> process_message L cs s (t, []) = Inr s"
  by (cases t) simp_all

lemma fragment_join:
  "fragment t \<Longrightarrow>
   process_messages L cs s ((t, b @ b') # r) = process_messages L cs s ((t, b) # (t, b') # r)"
  by (cases t) simp_all

lemma coalesce_process:
  "process_messages L cs s (coalesce ms) = process_messages L cs s ms"
proof (induction ms arbitrary: s)
  case Nil
  show ?case by simp
next
  case (Cons m ms)
  obtain t b where m: "m = (t, b)" by (cases m)
  show ?case
  proof (cases "fragment t")
    case False
    then show ?thesis using Cons.IH m by (simp split: sum.splits)
  next
    case frag: True
    show ?thesis
    proof (cases "b = []")
      case True
      with frag m Cons.IH show ?thesis by (simp add: fragment_empty)
    next
      case False
      have tail: "process_messages L cs s ((t, b) # coalesce ms) = process_messages L cs s (m # ms)"
        using Cons.IH m by (simp split: sum.splits)
      show ?thesis
      proof (cases "coalesce ms")
        case Nil
        with frag False m tail show ?thesis by simp
      next
        case (Cons m' r)
        obtain t' b' where m': "m' = (t', b')" by (cases m')
        show ?thesis
        proof (cases "t' = t")
          case True
          have "coalesce (m # ms) = (t, b @ b') # r"
            using frag False m Cons m' True by simp
          moreover have "(t, b) # coalesce ms = (t, b) # (t, b') # r"
            using Cons m' True by simp
          ultimately show ?thesis
            using tail fragment_join [OF frag, of L cs s b b' r] by simp
        next
          case neq: False
          have "coalesce (m # ms) = (t, b) # coalesce ms"
            using frag False m Cons m' neq by simp
          with tail show ?thesis by simp
        qed
      qed
    qed
  qed
qed

text \<open>
  The assembler's share in decoding a body that arrives in different chunkings: when the
  decoder accepts every chunk of two streams, closes without an exception and invokes
  the same callbacks up to where the bytes of header names, header values and part data
  are cut (\<open>coalesce\<close>), \<open>parse\<close> returns the same items, or raises the same exception,
  for both. Whether the decoder does so for two chunkings of one body is a property of
  the library's state machine and is not established here.
\<close>

lemma assembler_fragment_insensitive:
  assumes h: "headers_get hdrs ''Content-Type'' = Some header"
    and o: "content_type_options L header = (boundary, charset)"
    and c: "MultipartParser L boundary = Inr parser"
    and w1: "write_all L parser stream1 = Inr (parser1, invoked1)"
    and w2: "write_all L parser stream2 = Inr (parser2, invoked2)"
    and eq: "coalesce (fold callbacks invoked1 []) = coalesce (fold callbacks invoked2 [])"
    and f1: "parser_finalize L parser1 = Inr late1"
    and f2: "parser_finalize L parser2 = Inr late2"
  shows "map_sum id fst (parse L (MultiPartParser_init hdrs stream1)) =
         map_sum id fst (parse L (MultiPartParser_init hdrs stream2))"
proof -
  have "process_messages L charset initial_locals (fold callbacks invoked1 []) =
        process_messages L charset initial_locals (fold callbacks invoked2 [])"
    using coalesce_process [of L charset initial_locals "fold callbacks invoked1 []"]
      coalesce_process [of L charset initial_locals "fold callbacks invoked2 []"] eq
    by simp
  then show ?thesis
    unfolding parse_fresh [OF h o c w1] parse_fresh [OF h o c w2]
    using f1 f2 by (simp split: sum.splits)
qed

lemma assembler_fragment_insensitive_example:
  "map_sum id fst (parse recorded_lib
      (MultiPartParser_init [(''content-type'', ''multipart/form-data; boundary=XYZ'')]
         [file_body, []])) =
   map_sum id fst (parse recorded_lib
      (MultiPartParser_init [(''content-type'', ''multipart/form-data; boundary=XYZ'')]
         [take 15 file_body, drop 15 file_body, []]))
   \<and> parse recorded_lib
      (MultiPartParser_init [(''content-type'', ''multipart/form-data; boundary=XYZ'')]
         [take 15 file_body, drop 15 file_body, []]) = Inr ([(''file'', [], ''hello'')], [])"
proof -
  let ?hdrs = "[(''content-type'', ''multipart/form-data; boundary=XYZ'')]"
  let ?s1 = "[file_body, []]" and ?s2 = "[take 15 file_body, drop 15 file_body, []]"
  let ?i1 = "[On_part_begin, On_header_field file_body 7 26, On_header_value file_body 28 50,
              On_header_end, On_headers_finished, On_part_data file_body 54 59,
              On_part_end, On_end]"
  let ?i2 = "[On_part_begin, On_header_field (take 15 file_body) 7 15,
              On_header_field (drop 15 file_body) 0 11, On_header_value (drop 15 file_body) 13 35,
              On_header_end, On_headers_finished, On_part_data (drop 15 file_body) 39 44,
              On_part_end, On_end]"
  have h: "headers_get ?hdrs ''Content-Type'' = Some ''multipart/form-data; boundary=XYZ''"
    by code_simp
  have o: "content_type_options recorded_lib ''multipart/form-data; boundary=XYZ'' =
             (Some ''XYZ'', ''utf-8'')"
    by code_simp
  have c: "MultipartParser recorded_lib (Some ''XYZ'') = Inr 0"
    by code_simp
  have w1: "write_all recorded_lib 0 ?s1 = Inr (2, ?i1)"
    by code_simp
  have w2: "write_all recorded_lib 0 ?s2 = Inr (3, ?i2)"
    by code_simp
  have eq: "coalesce (fold callbacks ?i1 []) = coalesce (fold callbacks ?i2 [])"
    by code_simp
  have f1: "parser_finalize recorded_lib 2 = Inr []" by code_simp
  have f2: "parser_finalize recorded_lib 3 = Inr []" by code_simp
  have r: "parse recorded_lib (MultiPartParser_init ?hdrs ?s2) = Inr ([(''file'', [], ''hello'')], [])"
    by code_simp
  show ?thesis
    using assembler_fragment_insensitive [OF h o c w1 w2 eq f1 f2] r by simp
qed

subsection \<open>Callbacks invoked while closing the decoder\<close>

text \<open>
  C9: \<open>parse\<close> builds the returned items from the messages drained after the writes
  only. Whatever callbacks \<open>parser.finalize()\<close> invokes, their messages are appended to
  \<open>self.messages\<close> and are still there, unprocessed, when \<open>parse\<close> returns: the items are
  those of the callbacks invoked by the writes. A \<open>PART_END\<close> that arrives only at
  finalization therefore emits no item.
\<close>

theorem parse_leaves_finalize_callbacks:
  assumes h: "headers_get hdrs ''Content-Type'' = Some header"
    and o: "content_type_options L header = (boundary, charset)"
    and c: "MultipartParser L boundary = Inr parser"
    and w: "write_all L parser stream = Inr (parser', invoked)"
    and f: "parser_finalize L parser' = Inr late"
  shows "parse L (MultiPartParser_init hdrs stream) =
           (case process_messages L charset initial_locals (fold callbacks invoked []) of
              Inl e \<Rightarrow> Inl e
            | Inr s \<Rightarrow> Inr (map (deref_item (heap s)) (items s), fold callbacks late []))"
  unfolding parse_fresh [OF h o c w] using f by (simp split: sum.splits)

theorem parse_leaves_finalize_callbacks_witness:
  "parse (replay_lib recorded_options recorded_writes (Inr [On_part_end, On_end]))
     (MultiPartParser_init [(''content-type'', ''multipart/form-data; boundary=XYZ'')]
        [take 59 file_body, []]) = Inr ([], [(PART_END, []), (END, [])])"
proof -
  let ?L = "replay_lib recorded_options recorded_writes (Inr [On_part_end, On_end])"
  let ?hdrs = "[(''content-type'', ''multipart/form-data; boundary=XYZ'')]"
  let ?i = "[On_part_begin, On_header_field (take 59 file_body) 7 26,
              On_header_value (take 59 file_body) 28 50, On_header_end, On_headers_finished,
              On_part_data (take 59 file_body) 54 59]"
  have h: "headers_get ?hdrs ''Content-Type'' = Some ''multipart/form-data; boundary=XYZ''"
    by code_simp
  have o: "content_type_options ?L ''multipart/form-data; boundary=XYZ'' = (Some ''XYZ'', ''utf-8'')"
    by code_simp
  have c: "MultipartParser ?L (Some ''XYZ'') = Inr 0"
    by code_simp
  have w: "write_all ?L 0 [take 59 file_body, []] = Inr (2, ?i)"
    by code_simp
  have f: "parser_finalize ?L 2 = Inr [On_part_end, On_end]"
    by code_simp
  have p: "process_messages ?L ''utf-8'' initial_locals (fold callbacks ?i []) =
      Inr \<lparr>header_field = [], header_value = [],
           content_disposition = Some ''form-data; name=\"file\"'', field_name = ''file'',
           data = ''hello'', items = [], headers = 1, heap = [[], []]\<rparr>"
    by code_simp
  have l: "fold callbacks [On_part_end, On_end] [] = [(PART_END, []), (END, [])]"
    by code_simp
  show ?thesis
    using parse_leaves_finalize_callbacks [OF h o c w f] p l by simp
qed

subsection \<open>Header names of the items\<close>

text \<open>
  Every step of the assembler keeps the invariant \<open>names_ok\<close>, provided the name stored
  at a \<open>HEADER_END\<close> satisfies the predicate.
\<close>

lemma names_ok_step:
  assumes ok: "names_ok P s"
    and step: "process_message L cs s m = Inr s'"
    and new: "fst m = HEADER_END \<Longrightarrow> bytes_lower (header_field s) \<noteq> ''content-disposition''
                \<Longrightarrow> P (bytes_lower (header_field s))"
  shows "names_ok P s'"
proof -
  obtain t b where m: "m = (t, b)" by (cases m)
  show ?thesis
  proof (cases t)
    case HEADER_END
    show ?thesis
    proof (cases "bytes_lower (header_field s) = ''content-disposition''")
      case True
      with step m HEADER_END have "s' = s\<lparr>content_disposition := Some (header_value s),
                  header_field := [], header_value := []\<rparr>"
        by auto
      with ok show ?thesis by (simp add: names_ok_def)
    next
      case False
      let ?new = "heap s ! headers s @ [(bytes_lower (header_field s), header_value s)]"
      from False step m HEADER_END have s': "s' = s\<lparr>heap := (heap s)[headers s := ?new],
                  header_field := [], header_value := []\<rparr>"
        by (simp add: Let_def)
      have old: "heap s ! headers s \<in> set (heap s)"
        using ok by (simp add: names_ok_def)
      have "\<forall>kv \<in> set ?new. P (fst kv)"
        using ok old new False m HEADER_END by (auto simp: names_ok_def)
      moreover have "set ((heap s)[headers s := ?new]) \<subseteq> insert ?new (set (heap s))"
        by (rule set_update_subset_insert)
      ultimately have "\<forall>hl \<in> set ((heap s)[headers s := ?new]). \<forall>kv \<in> set hl. P (fst kv)"
        using ok unfolding names_ok_def by blast
      with ok show ?thesis unfolding s' names_ok_def by simp
    qed
  next
    case PART_BEGIN
    with ok step m show ?thesis by (fastforce simp: names_ok_def less_Suc_eq)
  next
    case PART_END
    with ok step m show ?thesis by (fastforce simp: names_ok_def)
  next
    case HEADERS_FINISHED
    with ok step m show ?thesis by (fastforce simp: names_ok_def Let_def split: option.splits)
  qed (use ok step m in \<open>fastforce simp: names_ok_def\<close>)+
qed

lemma header_field_step:
  assumes "process_message L cs s (t, b) = Inr s'"
  shows "header_field s' = (if t = HEADER_FIELD then header_field s @ b
                            else if t = HEADER_END then [] else header_field s)"
  using assms by (cases t) (auto simp: Let_def split: option.splits if_splits)

lemma names_ok_run:
  assumes "names_ok P s"
    and "process_messages L cs s ms = Inr s'"
    and "\<forall>f \<in> set (received_header_fields (header_field s) ms).
           bytes_lower f \<noteq> ''content-disposition'' \<longrightarrow> P (bytes_lower f)"
  shows "names_ok P s'"
  using assms
proof (induction ms arbitrary: s)
  case Nil
  then show ?case by simp
next
  case (Cons m ms)
  obtain t b where m: "m = (t, b)" by (cases m)
  from Cons.prems(2) obtain s1 where
    s1: "process_message L cs s m = Inr s1" and rest: "process_messages L cs s1 ms = Inr s'"
    by (auto split: sum.splits)
  have hf: "header_field s1 = (if t = HEADER_FIELD then header_field s @ b
                            else if t = HEADER_END then [] else header_field s)"
    using header_field_step [OF s1 [unfolded m]] .
  have ok1: "names_ok P s1"
  proof (rule names_ok_step [OF Cons.prems(1) s1])
    assume "fst m = HEADER_END" "bytes_lower (header_field s) \<noteq> ''content-disposition''"
    with Cons.prems(3) m show "P (bytes_lower (header_field s))" by simp
  qed
  have "\<forall>f \<in> set (received_header_fields (header_field s1) ms).
           bytes_lower f \<noteq> ''content-disposition'' \<longrightarrow> P (bytes_lower f)"
    using Cons.prems(3) m hf by (auto split: if_splits)
  with Cons.IH [OF ok1 rest] show ?case .
qed

text \<open>
  C10: every header name in the header list of a returned item is the lower-cased form
  of a header name received from the stream (the joined bytes of the \<open>HEADER_FIELD\<close>
  messages before a \<open>HEADER_END\<close>), and it is never \<open>content-disposition\<close>.
\<close>

theorem form_item_header_names:
  assumes h: "headers_get hdrs ''Content-Type'' = Some header"
    and o: "content_type_options L header = (boundary, charset)"
    and c: "MultipartParser L boundary = Inr parser"
    and w: "write_all L parser stream = Inr (parser', invoked)"
    and p: "parse L (MultiPartParser_init hdrs stream) = Inr (form, left)"
    and i: "(name, hs, dat) \<in> set form"
    and k: "(k, v) \<in> set hs"
  shows "k \<in> bytes_lower ` set (received_header_fields [] (fold callbacks invoked []))
         \<and> k \<noteq> ''content-disposition''"
proof -
  let ?P = "\<lambda>k. k \<in> bytes_lower ` set (received_header_fields [] (fold callbacks invoked []))
         \<and> k \<noteq> ''content-disposition''"
  from p obtain s where
    run: "process_messages L charset initial_locals (fold callbacks invoked []) = Inr s" and
    form: "form = map (deref_item (heap s)) (items s)"
    unfolding parse_fresh [OF h o c w] by (auto split: sum.splits)
  have "names_ok ?P initial_locals"
    by (simp add: names_ok_def initial_locals_def)
  moreover have "\<forall>f \<in> set (received_header_fields (header_field initial_locals)
                   (fold callbacks invoked [])).
           bytes_lower f \<noteq> ''content-disposition'' \<longrightarrow> ?P (bytes_lower f)"
    by (simp add: initial_locals_def)
  ultimately have ok: "names_ok ?P s"
    using run names_ok_run [of ?P initial_locals L charset "fold callbacks invoked []" s]
    by blast
  from i form obtain n a d where it: "(n, a, d) \<in> set (items s)" and hs: "hs = heap s ! a"
    by (auto simp: deref_item_def)
  from ok it have "a < length (heap s)" by (auto simp: names_ok_def)
  then have "hs \<in> set (heap s)" using hs by simp
  with ok k show ?thesis unfolding names_ok_def by fastforce
qed

theorem form_item_header_names_witness:
  "''x-tag'' \<in> bytes_lower ` set (received_header_fields []
      (fold callbacks
         [On_part_begin, On_header_field twice_body 7 26, On_header_value twice_body 28 47,
          On_header_end, On_header_field twice_body 49 54, On_header_value twice_body 56 59,
          On_header_end, On_headers_finished, On_part_data twice_body 63 64, On_part_end,
          On_part_begin, On_header_field twice_body 73 92, On_header_value twice_body 94 113,
          On_header_end, On_header_field twice_body 115 120,
          On_header_value twice_body 122 125, On_header_end, On_headers_finished,
          On_part_data twice_body 129 130, On_part_end, On_end] []))
   \<and> ''x-tag'' \<noteq> ''content-disposition''"
proof -
  let ?hdrs = "[(''content-type'', ''multipart/form-data; boundary=XYZ'')]"
  let ?i = "[On_part_begin, On_header_field twice_body 7 26, On_header_value twice_body 28 47,
          On_header_end, On_header_field twice_body 49 54, On_header_value twice_body 56 59,
          On_header_end, On_headers_finished, On_part_data twice_body 63 64, On_part_end,
          On_part_begin, On_header_field twice_body 73 92, On_header_value twice_body 94 113,
          On_header_end, On_header_field twice_body 115 120,
          On_header_value twice_body 122 125, On_header_end, On_headers_finished,
          On_part_data twice_body 129 130, On_part_end, On_end]"
  have h: "headers_get ?hdrs ''Content-Type'' = Some ''multipart/form-data; boundary=XYZ''"
    by code_simp
  have o: "content_type_options recorded_lib ''multipart/form-data; boundary=XYZ'' =
             (Some ''XYZ'', ''utf-8'')"
    by code_simp
  have c: "MultipartParser recorded_lib (Some ''XYZ'') = Inr 0"
    by code_simp
  have w: "write_all recorded_lib 0 [twice_body, []] = Inr (2, ?i)"
    by code_simp
  have p: "parse recorded_lib (MultiPartParser_init ?hdrs [twice_body, []]) =
      Inr ([(''f'', [(''x-tag'', ''one'')], ''A''), (''f'', [(''x-tag'', ''two'')], ''B'')], [])"
    by code_simp
  have i: "(''f'', [(''x-tag'', ''one'')], ''A'') \<in>
      set [(''f'', [(''x-tag'', ''one'')], ''A''), (''f'', [(''x-tag'', ''two'')], ''B'')]"
    by simp
  have k: "(''x-tag'', ''one'') \<in> set [(''x-tag'', ''one'')]"
    by simp
  show ?thesis
    using form_item_header_names [OF h o c w p i k] .
qed

subsection \<open>The errors a caller of \<open>populate_multipart_requests\<close> observes\<close>

text \<open>
  The assertion comes first; past it, the outcome of \<open>parse\<close> decides, and the only
  exception that is translated is \<open>MultipartParseError\<close>.
\<close>

lemma populate_assert:
  "fst (parse_options_header L (headers_get (scope_headers (req_scope request)) ''Content-Type''))
     \<noteq> ''multipart/form-data'' \<Longrightarrow>
   populate_multipart_requests L request = Inl AssertionError"
  by (simp add: populate_multipart_requests_def Let_def)

lemma populate_parse:
  "fst (parse_options_header L (headers_get (scope_headers (req_scope request)) ''Content-Type''))
     = ''multipart/form-data'' \<Longrightarrow>
   populate_multipart_requests L request =
     (case parse L (MultiPartParser_init (scope_headers (req_scope request)) (request_stream request)) of
        Inl e \<Rightarrow> Inl (if e = MultipartParseError
                       then BentoMLException ''Invalid multipart requests'' else e)
      | Inr (form, left) \<Rightarrow>
          Inr (fill_reqs (request\<lparr>req_form := Some form\<rparr>) Map.empty form,
               request\<lparr>req_form := Some form\<rparr>))"
  by (simp add: populate_multipart_requests_def Let_def split: sum.splits error.splits prod.splits)

text \<open>
  C1, as amended: a call that fails returns no sub-requests at all, since the mapping is
  only built from the complete result of \<open>parse\<close>. A \<open>MultipartParseError\<close> of the
  decoder reaches the caller as \<open>BentoMLException("Invalid multipart requests")\<close> and never
  as itself; a media type other than \<open>multipart/form-data\<close> reaches the caller as the
  \<open>AssertionError\<close> of the assertion that precedes parsing.
\<close>

theorem populate_error_surface:
  "(fst (parse_options_header L (headers_get (scope_headers (req_scope request)) ''Content-Type'')) \<noteq> ''multipart/form-data'' \<longrightarrow>
      populate_multipart_requests L request = Inl AssertionError)
   \<and> (fst (parse_options_header L (headers_get (scope_headers (req_scope request)) ''Content-Type'')) = ''multipart/form-data''
        \<and> parse L 
          (MultiPartParser_init (scope_headers (req_scope request)) (request_stream request)) = Inl MultipartParseError \<longrightarrow>
      populate_multipart_requests L request = Inl (BentoMLException ''Invalid multipart requests''))
   \<and> populate_multipart_requests L request \<noteq> Inl MultipartParseError
   \<and> (\<forall>reqs request'. populate_multipart_requests L request = Inr (reqs, request') \<longrightarrow>
        (\<exists>form left.
           parse L 
          (MultiPartParser_init (scope_headers (req_scope request)) (request_stream request)) = Inr (form, left)
           \<and> request' = request\<lparr>req_form := Some form\<rparr>
           \<and> reqs = fill_reqs request' Map.empty form))"
proof (cases "fst (parse_options_header L (headers_get (scope_headers (req_scope request)) ''Content-Type'')) = ''multipart/form-data''")
  case False
  then show ?thesis
    using populate_assert [of L request] by simp
next
  case True
  show ?thesis
    using True populate_parse [of L request]
    by (auto split: sum.splits prod.splits)
qed

theorem populate_error_surface_witness:
  "populate_multipart_requests recorded_lib
     (form_request ''multipart/form-data; boundary=XYZ'' [''hello'', []]) =
   Inl (BentoMLException ''Invalid multipart requests'')"
proof -
  let ?r = "form_request ''multipart/form-data; boundary=XYZ'' [''hello'', []]"
  have ct: "fst (parse_options_header recorded_lib
               (headers_get (scope_headers (req_scope ?r)) ''Content-Type'')) = ''multipart/form-data''"
    by code_simp
  have p: "parse recorded_lib
             (MultiPartParser_init (scope_headers (req_scope ?r)) (request_stream ?r)) =
           Inl MultipartParseError"
    by code_simp
  show ?thesis
    using populate_error_surface [of recorded_lib ?r] ct p by blast
qed

text \<open>
  C1 as stated fails for an invalid content type: a \<open>text/plain\<close> request is rejected by
  the assertion, so the caller observes \<open>AssertionError\<close>, not the module's exception.
\<close>

theorem populate_invalid_content_type_counterexample:
  "populate_multipart_requests recorded_lib (form_request ''text/plain'' [file_body, []]) =
   Inl AssertionError"
proof -
  let ?r = "form_request ''text/plain'' [file_body, []]"
  have "fst (parse_options_header recorded_lib
          (headers_get (scope_headers (req_scope ?r)) ''Content-Type'')) \<noteq> ''multipart/form-data''"
    by code_simp
  then show ?thesis by (rule populate_assert)
qed

text \<open>
  C2: a part whose \<open>Content-Disposition\<close> has no \<open>name\<close> parameter. \<open>options[b"name"]\<close>
  raises \<open>KeyError\<close>, which the \<open>except multipart.MultipartParseError\<close> clause does not
  catch: on the body \<open>nameless_body\<close> the caller observes \<open>KeyError\<close> instead of the
  module's exception (no sub-request is produced).
\<close>

theorem populate_missing_name_raises_KeyError:
  "populate_multipart_requests recorded_lib
     (form_request ''multipart/form-data; boundary=XYZ'' [nameless_body, []]) =
   Inl (KeyError ''name'')"
proof -
  let ?r = "form_request ''multipart/form-data; boundary=XYZ'' [nameless_body, []]"
  have ct: "fst (parse_options_header recorded_lib
               (headers_get (scope_headers (req_scope ?r)) ''Content-Type'')) = ''multipart/form-data''"
    by code_simp
  have p: "parse recorded_lib
             (MultiPartParser_init (scope_headers (req_scope ?r)) (request_stream ?r)) =
           Inl (KeyError ''name'')"
    by code_simp
  show ?thesis
    unfolding populate_parse [OF ct] p by simp
qed

subsection \<open>The mapping from field names to sub-requests\<close>

text \<open>
  \<open>reqs[field_name] = req\<close> overwrites: after the loop a name is bound to the
  sub-request of the last item that carries it.
\<close>

lemma fill_reqs_append:
  "fill_reqs r m (xs @ ys) = fill_reqs r (fill_reqs r m xs) ys"
  by (induction xs arbitrary: m) simp_all

lemma fill_reqs_other:
  "f \<notin> fst ` set form \<Longrightarrow> fill_reqs r m form f = m f"
  by (induction form arbitrary: m) auto

lemma fill_reqs_last:
  "f \<notin> fst ` set after \<Longrightarrow>
   fill_reqs r m (before @ (f, hs, dat) # after) f = Some (sub_request r (f, hs, dat))"
  by (simp add: fill_reqs_append fill_reqs_other)

lemma sub_request_body: "req_body (sub_request r (f, hs, dat)) = Some dat"
  by (simp add: sub_request_def Request_init_def Let_def)

text \<open>
  C4: when the decoded form holds a part named \<open>f\<close> with body \<open>A\<close> and, later, a part
  named \<open>f\<close> with body \<open>B\<close>, and no part named \<open>f\<close> follows, the returned mapping binds
  \<open>f\<close> to one sub-request, the one built from the later part, whose body is \<open>B\<close>.
\<close>

theorem populate_last_write_wins:
  assumes pop: "populate_multipart_requests L request = Inr (reqs, request')"
    and par: "parse L (MultiPartParser_init (scope_headers (req_scope request))
                (request_stream request)) = Inr (form, left)"
    and form: "form = before @ (f, hA, A) # between @ (f, hB, B) # after"
    and last: "f \<notin> fst ` set after"
  shows "reqs f = Some (sub_request request' (f, hB, B)) \<and> req_body (the (reqs f)) = Some B"
proof -
  have ct: "fst (parse_options_header L
              (headers_get (scope_headers (req_scope request)) ''Content-Type'')) = ''multipart/form-data''"
    using pop populate_assert [of L request] by force
  have "reqs = fill_reqs request' Map.empty form"
    using pop unfolding populate_parse [OF ct] par by auto
  moreover have "form = (before @ (f, hA, A) # between) @ (f, hB, B) # after"
    using form by simp
  ultimately have "reqs f = Some (sub_request request' (f, hB, B))"
    using fill_reqs_last [OF last] by metis
  then show ?thesis by (simp add: sub_request_body)
qed

theorem populate_last_write_wins_witness:
  "\<exists>reqs request'.
     populate_multipart_requests recorded_lib
       (form_request ''multipart/form-data; boundary=XYZ'' [twice_body, []]) = Inr (reqs, request')
     \<and> reqs ''f'' = Some (sub_request request' (''f'', [(''x-tag'', ''two'')], ''B''))
     \<and> req_body (the (reqs ''f'')) = Some ''B''"
proof -
  let ?r = "form_request ''multipart/form-data; boundary=XYZ'' [twice_body, []]"
  let ?form = "[(''f'', [(''x-tag'', ''one'')], ''A''), (''f'', [(''x-tag'', ''two'')], ''B'')]"
  let ?r' = "?r\<lparr>req_form := Some ?form\<rparr>"
  have ct: "fst (parse_options_header recorded_lib
               (headers_get (scope_headers (req_scope ?r)) ''Content-Type'')) = ''multipart/form-data''"
    by code_simp
  have par: "parse recorded_lib
             (MultiPartParser_init (scope_headers (req_scope ?r)) (request_stream ?r)) =
           Inr (?form, [])"
    by code_simp
  have pop: "populate_multipart_requests recorded_lib ?r =
               Inr (fill_reqs ?r' Map.empty ?form, ?r')"
    unfolding populate_parse [OF ct] par by simp
  have form: "?form = [] @ (''f'', [(''x-tag'', ''one'')], ''A'') # []
                 @ (''f'', [(''x-tag'', ''two'')], ''B'') # []"
    by simp
  have last: "''f'' \<notin> fst ` set ([] :: form_item list)"
    by simp
  show ?thesis
    using populate_last_write_wins [OF pop par form last] pop by blast
qed

subsection \<open>The headers of a sub-request\<close>

text \<open>
  \<open>dict(pairs)\<close> keeps one entry per name, holding the value of the last pair with that
  name; \<open>update\<close> layers a second dictionary on top.
\<close>

lemma map_of_dict_update:
  "map_of (dict_update d d') = map_of d ++ map_of (rev d')"
proof (induction d' arbitrary: d)
  case Nil
  show ?case by (simp add: dict_update_def)
next
  case (Cons p d')
  obtain k v where p: "p = (k, v)" by (cases p)
  have "dict_update d (p # d') = dict_update (AList.update k v d) d'"
    by (simp add: dict_update_def p)
  then have "map_of (dict_update d (p # d')) = map_of (AList.update k v d) ++ map_of (rev d')"
    using Cons.IH [of "AList.update k v d"] by simp
  also have "\<dots> = (map_of d)(k \<mapsto> v) ++ map_of (rev d')"
    by (simp only: update_conv')
  also have "\<dots> = map_of d ++ map_of (rev (p # d'))"
    by (auto simp: p map_add_def fun_eq_iff split: option.splits)
  finally show ?case .
qed

lemma distinct_dict_update:
  "distinct (map fst d) \<Longrightarrow> distinct (map fst (dict_update d d'))"
proof (induction d' arbitrary: d)
  case Nil
  then show ?case by (simp add: dict_update_def)
next
  case (Cons p d')
  obtain k v where p: "p = (k, v)" by (cases p)
  have "dict_update d (p # d') = dict_update (AList.update k v d) d'"
    by (simp add: dict_update_def p)
  with Cons.IH [of "AList.update k v d"] Cons.prems show ?case
    by (simp add: distinct_update)
qed

lemma map_of_dict: "map_of (dict pairs) = last_value pairs"
  by (simp add: dict_def map_of_dict_update last_value_def fun_eq_iff)

lemma distinct_dict: "distinct (map fst (dict pairs))"
  by (simp add: dict_def distinct_dict_update)

lemma map_of_rev_distinct:
  "distinct (map fst xs) \<Longrightarrow> map_of (rev xs) = map_of xs"
proof (induction xs)
  case Nil
  show ?case by simp
next
  case (Cons p xs)
  obtain k v where p: "p = (k, v)" by (cases p)
  from Cons.prems p have "map_of xs k = None"
    by (auto simp: map_of_eq_None_iff)
  with Cons p show ?case
    by (auto simp: map_add_def fun_eq_iff split: option.splits)
qed

lemma sub_request_headers:
  "scope_headers (req_scope (sub_request r (f, hs, dat))) =
     dict_update (dict (scope_headers (req_scope r))) (dict hs)"
  by (simp add: sub_request_def Request_init_def Let_def)

lemma map_of_sub_request_headers:
  "map_of (scope_headers (req_scope (sub_request r (f, hs, dat)))) =
     last_value (scope_headers (req_scope r)) ++ last_value hs"
  by (simp add: sub_request_headers map_of_dict_update map_of_rev_distinct distinct_dict
        map_of_dict)

text \<open>
  C5, as amended: the header list of a sub-request has one entry per name. A name that
  occurs among the part's headers carries the part's value (the last one, if the part
  repeats the name); any other name carries the value of its last occurrence in the
  parent's header list, and is absent if the parent does not have it. The body is the
  part's data.
\<close>

theorem sub_request_layers_headers:
  "distinct (map fst (scope_headers (req_scope (sub_request request (f, hs, dat)))))
   \<and> (\<forall>k v. last_value hs k = Some v \<longrightarrow>
         map_of (scope_headers (req_scope (sub_request request (f, hs, dat)))) k = Some v)
   \<and> (\<forall>k. k \<notin> fst ` set hs \<longrightarrow>
         map_of (scope_headers (req_scope (sub_request request (f, hs, dat)))) k =
           last_value (scope_headers (req_scope request)) k)
   \<and> req_body (sub_request request (f, hs, dat)) = Some dat"
proof -
  have none: "last_value hs k = None" if "k \<notin> fst ` set hs" for k
    using that by (simp add: last_value_def map_of_eq_None_iff)
  show ?thesis
    unfolding map_of_sub_request_headers
    by (auto simp: sub_request_headers distinct_dict_update distinct_dict sub_request_body
          map_add_def none)
qed

theorem sub_request_layers_headers_witness:
  "map_of (scope_headers (req_scope (sub_request
       (form_request ''multipart/form-data; boundary=XYZ'' [])
       (''f'', [(''content-type'', ''text/plain'')], ''x'')))) ''content-type'' = Some ''text/plain''
   \<and> map_of (scope_headers (req_scope (sub_request
       (form_request ''multipart/form-data; boundary=XYZ'' [])
       (''f'', [(''content-type'', ''text/plain'')], ''x'')))) ''host'' = Some ''localhost''
   \<and> req_body (sub_request
       (form_request ''multipart/form-data; boundary=XYZ'' [])
       (''f'', [(''content-type'', ''text/plain'')], ''x'')) = Some ''x''"
proof -
  let ?r = "form_request ''multipart/form-data; boundary=XYZ'' [] :: unit Request"
  let ?hs = "[(''content-type'', ''text/plain'')]"
  have a: "last_value ?hs ''content-type'' = Some ''text/plain''"
    by code_simp
  have b: "''host'' \<notin> fst ` set ?hs"
    by simp
  have c: "last_value (scope_headers (req_scope ?r)) ''host'' = Some ''localhost''"
    by code_simp
  show ?thesis
    using sub_request_layers_headers [of ?r "''f''" ?hs "''x''"] a b c by simp
qed

text \<open>
  C5 as stated fails when the parent's header list repeats a name: \<open>dict\<close> keeps the last
  value only, so the parent header \<open>(accept, a)\<close>, whose name no part header uses, is not
  among the sub-request's headers.
\<close>

theorem sub_request_duplicate_parent_header_counterexample:
  "(''accept'', ''a'') \<in> set [(''accept'', ''a''), (''accept'', ''b'')]
   \<and> ''accept'' \<notin> fst ` set ([] :: (bytes \<times> bytes) list)
   \<and> (''accept'', ''a'') \<notin> set (scope_headers (req_scope (sub_request
        \<lparr>req_scope = \<lparr>scope_headers = [(''accept'', ''a''), (''accept'', ''b'')],
                       scope_entries = ()\<rparr>,
          req_body = None, req_form = None, req_receive = []\<rparr>
        (''f'', [], ''x''))))"
  by (simp add: sub_request_def Request_init_def dict_def dict_update_def)

subsection \<open>The merged response\<close>

text \<open>
  Every \<open>write\<close> happens at the end of the buffer, so after the loop the buffer holds the
  bodies in order and the position is its length. Iterating the object from there
  yields nothing. The header carries 32 lower-case hexadecimal digits when \<open>os.urandom\<close>
  returns the 16 bytes it is asked for.
\<close>

lemma BytesIO_write_at_end:
  "position io = length (buffer io) \<Longrightarrow>
   BytesIO_write b io = \<lparr>buffer = buffer io @ b, position = length (buffer io) + length b\<rparr>"
  by (simp add: BytesIO_write_def)

lemma fold_BytesIO_write:
  "position io = length (buffer io) \<Longrightarrow>
   fold (\<lambda>r io. BytesIO_write (body r) io) rs io =
     \<lparr>buffer = buffer io @ concat (map body rs),
      position = length (buffer io @ concat (map body rs))\<rparr>"
proof (induction rs arbitrary: io)
  case Nil
  then show ?case by simp
next
  case (Cons r rs)
  have "position (BytesIO_write (body r) io) = length (buffer (BytesIO_write (body r) io))"
    using Cons.prems by (simp add: BytesIO_write_at_end)
  from Cons.IH [OF this] Cons.prems show ?case
    by (simp add: BytesIO_write_at_end)
qed

lemma concat_responses_buffer:
  "body_iterator (concat_to_multipart_responses urandom responses) =
     \<lparr>buffer = concat (map (body \<circ> snd) responses),
      position = length (concat (map (body \<circ> snd) responses))\<rparr>"
  by (simp add: concat_to_multipart_responses_def Let_def BytesIO_init_def fold_BytesIO_write
        comp_def)

lemma concat_responses_streamed_body:
  "streamed_body (concat_to_multipart_responses urandom responses) = []"
  by (simp add: streamed_body_def BytesIO_iter_def concat_responses_buffer)

lemma concat_split_lines: "concat (split_lines bs) = bs"
  by (induction bs) (auto split: list.splits)

lemma hex_digit_lower: "n < 16 \<Longrightarrow> hex_digit n \<in> set ''0123456789abcdef''"
  unfolding hex_digit_def by (rule nth_mem) simp

lemma length_hexlify: "length (hexlify bs) = 2 * length bs"
  by (induction bs) (simp_all add: hexlify_def)

lemma set_hexlify: "set (hexlify bs) \<subseteq> set ''0123456789abcdef''"
proof -
  have "hex_digit (of_char c div 16) \<in> set ''0123456789abcdef''" for c :: char
  proof -
    have "(of_char c :: nat) < 256" by simp
    then have "(of_char c :: nat) div 16 < 16" by arith
    then show ?thesis by (rule hex_digit_lower)
  qed
  moreover have "hex_digit (of_char c mod 16) \<in> set ''0123456789abcdef''" for c :: char
    by (rule hex_digit_lower) simp
  ultimately show ?thesis
    unfolding hexlify_def by (induction bs) auto
qed

lemma concat_responses_content_type:
  "length (urandom 16) = 16 \<Longrightarrow>
   \<exists>boundary. raw_headers (concat_to_multipart_responses urandom responses) =
       [(''content-type'', ''multipart/form-data; boundary='' @ boundary)]
     \<and> length boundary = 32 \<and> set boundary \<subseteq> set ''0123456789abcdef''"
  using length_hexlify [of "urandom 16"] set_hexlify [of "urandom 16"]
  by (simp add: concat_to_multipart_responses_def Let_def)

text \<open>
  C6: for the responses with bodies \<open>abc\<close> and \<open>def\<close> the buffer of the \<open>BytesIO\<close> is
  \<open>abcdef\<close>, but its position is 6 and it is handed to \<open>StreamingResponse\<close> without being
  rewound, so iterating it yields no chunk: the body that is streamed is empty, not
  \<open>abcdef\<close>.
\<close>

theorem concat_responses_body_not_streamed:
  "body_iterator (concat_to_multipart_responses urandom
      [(''a'', \<lparr>body = ''abc'', response_entries = ()\<rparr>),
       (''b'', \<lparr>body = ''def'', response_entries = ()\<rparr>)]) =
     \<lparr>buffer = ''abcdef'', position = 6\<rparr>
   \<and> BytesIO_iter \<lparr>buffer = ''abcdef'', position = 6\<rparr> = []
   \<and> streamed_body (concat_to_multipart_responses urandom
      [(''a'', \<lparr>body = ''abc'', response_entries = ()\<rparr>),
       (''b'', \<lparr>body = ''def'', response_entries = ()\<rparr>)]) = []"
  by (simp add: concat_to_multipart_responses_def Let_def BytesIO_init_def BytesIO_write_def
        BytesIO_iter_def streamed_body_def)

subsection \<open>A stream that ends inside a part\<close>

text \<open>
  C7, as amended: after the last chunk \<open>parse\<close> closes the decoder and has no check of
  its own on how far the body got. When every chunk was accepted and assembled, the
  outcome is the decoder's: if \<open>finalize\<close> raises \<open>MultipartParseError\<close>, the caller
  observes \<open>BentoMLException("Invalid multipart requests")\<close>; if \<open>finalize\<close> returns, the
  caller receives the sub-requests of the parts completed so far, and a part whose end
  was not seen is dropped without an error.
\<close>

theorem populate_close_decides:
  assumes ct: "fst (parse_options_header L
                 (headers_get (scope_headers (req_scope request)) ''Content-Type''))
               = ''multipart/form-data''"
    and h: "headers_get (scope_headers (req_scope request)) ''Content-Type'' = Some header"
    and o: "content_type_options L header = (boundary, charset)"
    and c: "MultipartParser L boundary = Inr parser"
    and w: "write_all L parser (request_stream request) = Inr (parser', invoked)"
    and run: "process_messages L charset initial_locals (fold callbacks invoked []) = Inr s"
    and form: "form = map (deref_item (heap s)) (items s)"
  shows "(parser_finalize L parser' = Inl MultipartParseError \<longrightarrow>
            populate_multipart_requests L request =
              Inl (BentoMLException ''Invalid multipart requests''))
       \<and> (\<forall>late. parser_finalize L parser' = Inr late \<longrightarrow>
            populate_multipart_requests L request =
              Inr (fill_reqs (request\<lparr>req_form := Some form\<rparr>) Map.empty form,
                   request\<lparr>req_form := Some form\<rparr>))"
  unfolding populate_parse [OF ct] parse_fresh [OF h o c w] run form
  by simp

theorem populate_close_decides_witness:
  "populate_multipart_requests
     (replay_lib recorded_options recorded_writes (Inl MultipartParseError))
     (form_request ''multipart/form-data; boundary=XYZ'' [take 59 file_body, []]) =
   Inl (BentoMLException ''Invalid multipart requests'')"
proof -
  let ?L = "replay_lib recorded_options recorded_writes (Inl MultipartParseError)"
  let ?r = "form_request ''multipart/form-data; boundary=XYZ'' [take 59 file_body, []]"
  let ?i = "[On_part_begin, On_header_field (take 59 file_body) 7 26,
              On_header_value (take 59 file_body) 28 50, On_header_end, On_headers_finished,
              On_part_data (take 59 file_body) 54 59]"
  let ?s = "\<lparr>header_field = [], header_value = [],
           content_disposition = Some ''form-data; name=\"file\"'', field_name = ''file'',
           data = ''hello'', items = [], headers = 1, heap = [[], []]\<rparr>"
  have ct: "fst (parse_options_header ?L
               (headers_get (scope_headers (req_scope ?r)) ''Content-Type'')) = ''multipart/form-data''"
    by code_simp
  have h: "headers_get (scope_headers (req_scope ?r)) ''Content-Type'' =
             Some ''multipart/form-data; boundary=XYZ''"
    by code_simp
  have o: "content_type_options ?L ''multipart/form-data; boundary=XYZ'' = (Some ''XYZ'', ''utf-8'')"
    by code_simp
  have c: "MultipartParser ?L (Some ''XYZ'') = Inr 0"
    by code_simp
  have w: "write_all ?L 0 (request_stream ?r) = Inr (2, ?i)"
    by code_simp
  have run: "process_messages ?L ''utf-8'' initial_locals (fold callbacks ?i []) = Inr ?s"
    by code_simp
  have f: "parser_finalize ?L 2 = Inl MultipartParseError"
    by code_simp
  show ?thesis
    using populate_close_decides [OF ct h o c w run refl] f by blast
qed

text \<open>
  C7 as stated fails for a decoder whose \<open>finalize\<close> does not check the final state, as
  that of \<open>python-multipart\<close> (its body is \<open>pass\<close>): the example body cut before its
  closing boundary is accepted, and the caller receives an empty mapping instead of an
  exception.
\<close>

theorem populate_truncated_body_counterexample:
  "populate_multipart_requests recorded_lib
     (form_request ''multipart/form-data; boundary=XYZ'' [take 59 file_body, []]) =
   Inr (Map.empty,
        (form_request ''multipart/form-data; boundary=XYZ'' [take 59 file_body, []])
          \<lparr>req_form := Some []\<rparr>)"
proof -
  let ?r = "form_request ''multipart/form-data; boundary=XYZ'' [take 59 file_body, []]"
  have ct: "fst (parse_options_header recorded_lib
               (headers_get (scope_headers (req_scope ?r)) ''Content-Type'')) = ''multipart/form-data''"
    by code_simp
  have p: "parse recorded_lib
             (MultiPartParser_init (scope_headers (req_scope ?r)) (request_stream ?r)) =
           Inr ([], [])"
    by code_simp
  show ?thesis
    unfolding populate_parse [OF ct] p by simp
qed

subsection \<open>The content type, the boundary and the charset\<close>

text \<open>
  The assertion tests the media type only. When the header has no \<open>boundary\<close> parameter
  the module raises nothing of its own: the resolved boundary is \<open>None\<close>, the decoder's
  constructor is called with it, and an exception of the constructor reaches the caller,
  translated only when it is \<open>MultipartParseError\<close>.
\<close>

lemma content_type_options_no_boundary:
  "snd (parse_options_header L (Some header)) ''boundary'' = None \<Longrightarrow>
   fst (content_type_options L header) = None"
  by (simp add: content_type_options_def Let_def)

lemma populate_missing_boundary:
  assumes ct: "fst (parse_options_header L
                 (headers_get (scope_headers (req_scope request)) ''Content-Type''))
               = ''multipart/form-data''"
    and h: "headers_get (scope_headers (req_scope request)) ''Content-Type'' = Some header"
    and b: "snd (parse_options_header L (Some header)) ''boundary'' = None"
    and c: "MultipartParser L None = Inl e"
  shows "populate_multipart_requests L request =
           Inl (if e = MultipartParseError
                then BentoMLException ''Invalid multipart requests'' else e)"
proof -
  obtain charset where "content_type_options L header = (None, charset)"
    using content_type_options_no_boundary [OF b]
    by (cases "content_type_options L header") simp
  then have "parse L (MultiPartParser_init (scope_headers (req_scope request))
                (request_stream request)) = Inl e"
    using h c by (simp add: parse_def MultiPartParser_init_def)
  then show ?thesis
    unfolding populate_parse [OF ct] by simp
qed

text \<open>
  C8: a request with \<open>Content-Type: multipart/form-data\<close> and no boundary parameter. The
  assertion passes, \<open>params.get(b"boundary")\<close> is \<open>None\<close> (the charset is \<open>utf-8\<close>), and
  \<open>None\<close> is handed unchecked to the decoder's constructor. Its \<open>TypeError\<close>
  (\<open>b'\r\n--' + None\<close>) is not caught by \<open>except multipart.MultipartParseError\<close>, so the
  caller observes \<open>TypeError\<close> instead of a content-type failure.
\<close>

theorem populate_missing_boundary_raises_TypeError:
  "content_type_options recorded_lib ''multipart/form-data'' = (None, ''utf-8'')
   \<and> populate_multipart_requests recorded_lib
         (form_request ''multipart/form-data'' [file_body, []]) = Inl (PyException ''TypeError'')"
proof -
  let ?r = "form_request ''multipart/form-data'' [file_body, []]"
  have o: "content_type_options recorded_lib ''multipart/form-data'' = (None, ''utf-8'')"
    by code_simp
  have ct: "fst (parse_options_header recorded_lib
               (headers_get (scope_headers (req_scope ?r)) ''Content-Type'')) = ''multipart/form-data''"
    by code_simp
  have p: "parse recorded_lib
             (MultiPartParser_init (scope_headers (req_scope ?r)) (request_stream ?r)) =
           Inl (PyException ''TypeError'')"
    by code_simp
  show ?thesis
    unfolding populate_parse [OF ct] p using o by simp
qed

end
